theory Spec2Isabelle
  imports Complex_Main "HOL-Library.Sublist" "HOL-Library.Log_Nat"
begin

section \<open>Mutation-score extraction of the analyzer (tools.py, utility.py)\<close>

text \<open>
  The four report parsers of \<^verbatim>\<open>analyzer/tools.py\<close>, the tool registry of the same
  module and \<^verbatim>\<open>read_config\<close> of \<^verbatim>\<open>analyzer/utility.py\<close> are embedded as HOL
  functions. Conventions:
  \<^item> Python's unbounded \<^verbatim>\<open>int\<close> is \<^typ>\<open>int\<close>.
  \<^item> A raised exception is a value \<open>Inl e\<close> of the sum type \<open>error + 'a\<close>.
  \<^item> A \<^verbatim>\<open>float\<close> is denoted by a rational whose nearest IEEE double it is:
    \<^verbatim>\<open>a / b\<close> on two ints by the exact quotient (the code holds the double nearest
    to it, and raises \<^verbatim>\<open>ZeroDivisionError\<close> for \<open>b = 0\<close>), the result of
    \<^verbatim>\<open>round(x, 3)\<close> by the decimal with three places that Python prints for it.
    \<open>py_round\<close> computes that decimal as Python does, from the double nearest to its
    argument. Doubles have a significand of 53 bits and exponents from -1022; the
    upper end of their range (\<^verbatim>\<open>OverflowError\<close> of the division) is not modelled.
  \<^item> Text is a \<^typ>\<open>string\<close>; a character stands for the code point of the same number
    (U+0000 to U+00FF), and the character classes below are those of Python 3 on that
    range.
  \<^item> The library parsers (\<^verbatim>\<open>json.loads\<close>, \<^verbatim>\<open>pandas.read_csv\<close>,
    \<^verbatim>\<open>xml.etree.ElementTree.fromstring\<close>) are not part of the repository; the
    embedding starts at the value they return (a list of class entries, two data
    frames, the children of the root element).
\<close>

subsection \<open>Errors and the score record\<close>

datatype error =
    AssertionError string
  | ZeroDivisionError
  | KeyError "string option"
  | AttributeError
  | RuntimeError string
  | ValueError string

record mutation_report =
  killed :: int
  live :: int
  all :: int
  score :: rat
  score_full :: rat

definition py_truediv :: "int \<Rightarrow> int \<Rightarrow> error + rat" where
  "py_truediv a b = (if b = 0 then Inl ZeroDivisionError else Inr (of_int a / of_int b))"

text \<open>
  \<open>double x\<close> is the double nearest to \<open>x\<close>, ties going to the even significand, as
  the true division of two ints yields it. \<open>exponent x\<close> is the \<open>e\<close> with
  \<open>2 ^ e \<le> \<bar>x\<bar> < 2 ^ (e + 1)\<close>, found from the bit lengths of numerator and
  denominator; the doubles near \<open>x\<close> are the multiples of \<open>2 ^ (e - 52)\<close>, and of
  \<open>2 ^ (- 1074)\<close> below the normal range.
\<close>

definition pow2 :: "int \<Rightarrow> rat" where
  "pow2 e = (if 0 \<le> e then 2 ^ nat e else 1 / 2 ^ nat (- e))"

definition round_half_even :: "rat \<Rightarrow> int" where
  "round_half_even y =
     (let f = \<lfloor>y\<rfloor>; d = y - of_int f
      in if d < 1 / 2 then f else if 1 / 2 < d then f + 1
         else if even f then f else f + 1)"

definition exponent :: "rat \<Rightarrow> int" where
  "exponent x =
     (case quotient_of \<bar>x\<bar> of
        (a, b) \<Rightarrow>
          (let e0 = bitlen a - bitlen b
           in if pow2 e0 \<le> \<bar>x\<bar> then e0 else e0 - 1))"

definition double :: "rat \<Rightarrow> rat" where
  "double x =
     (if x = 0 then 0
      else (let q = pow2 (max (exponent x) (- 1022) - 52)
            in of_int (round_half_even (x / q)) * q))"

text \<open>
  \<^verbatim>\<open>round(x, ndigits)\<close> on a float: CPython writes the double with \<open>ndigits\<close> decimal
  places, correctly rounded from its exact value with ties to the even digit, and
  reads the string back.
\<close>

definition py_round :: "rat \<Rightarrow> nat \<Rightarrow> rat" where
  "py_round x ndigits =
     of_int (round_half_even (double x * 10 ^ ndigits)) / 10 ^ ndigits"

subsection \<open>Judy: the JSON class report\<close>

record judy_class =
  name :: string
  mutantsCount :: int
  mutantsKilledCount :: int

text \<open>
  \<^verbatim>\<open>Judy._get_mutation_score\<close>. The two \<^verbatim>\<open>assert\<close> statements are checked in the
  order of the source; the entry is read only when exactly one was selected.
\<close>

definition Judy_get_mutation_score :: "string \<Rightarrow> judy_class list \<Rightarrow> error + mutation_report" where
  "Judy_get_mutation_score class_under_mutation classes =
     (let thedict = filter (\<lambda>adict. name adict = class_under_mutation) classes
      in if \<not> length thedict > 0
         then Inl (AssertionError (class_under_mutation @ '' not found in Judy output!''))
         else if \<not> length thedict = 1
         then Inl (AssertionError (class_under_mutation @ '' appears multiple times in Judy output!''))
         else
           (let thedict0 = hd thedict;
                all_count = mutantsCount thedict0;
                killed_count = mutantsKilledCount thedict0;
                live_count = all_count - killed_count
            in case py_truediv killed_count all_count of
                 Inl e \<Rightarrow> Inl e
               | Inr sf \<Rightarrow>
                   Inr \<lparr>killed = killed_count, live = live_count, all = all_count,
                        score = py_round sf 3, score_full = sf\<rparr>))"

subsection \<open>Pit: the XML mutation list\<close>

text \<open>
  A child of the root is represented by the value of \<^verbatim>\<open>child.get("detected")\<close>:
  \<open>None\<close> when the attribute is absent. \<^verbatim>\<open>bool_mapper[...]\<close> raises
  \<^verbatim>\<open>KeyError\<close> on every key but \<^verbatim>\<open>"true"\<close> and \<^verbatim>\<open>"false"\<close>.
\<close>

definition bool_mapper :: "string option \<Rightarrow> error + bool" where
  "bool_mapper k =
     (if k = Some ''true'' then Inr True
      else if k = Some ''false'' then Inr False
      else Inl (KeyError k))"

fun Pit_loop :: "string option list \<Rightarrow> int \<Rightarrow> int \<Rightarrow> error + int \<times> int" where
  "Pit_loop [] killed_count live_count = Inr (killed_count, live_count)"
| "Pit_loop (child # rest) killed_count live_count =
     (case bool_mapper child of
        Inl e \<Rightarrow> Inl e
      | Inr k \<Rightarrow>
          (if k then Pit_loop rest (killed_count + 1) live_count
           else Pit_loop rest killed_count (live_count + 1)))"

definition Pit_get_mutation_score :: "string option list \<Rightarrow> error + mutation_report" where
  "Pit_get_mutation_score tree =
     (case Pit_loop tree 0 0 of
        Inl e \<Rightarrow> Inl e
      | Inr (killed_count, live_count) \<Rightarrow>
          (let all_count = killed_count + live_count
           in case py_truediv killed_count all_count of
                Inl e \<Rightarrow> Inl e
              | Inr sf \<Rightarrow>
                  Inr \<lparr>killed = killed_count, live = live_count, all = all_count,
                       score = py_round sf 3, score_full = sf\<rparr>))"

subsection \<open>Major: the two joined tables\<close>

record mutant_row =
  MutantNo :: int
  Operator :: string
  From :: string
  To :: string
  Signature :: string
  LineNumber :: int
  Description :: string

type_synonym kill_row = "int \<times> string"

text \<open>
  \<^verbatim>\<open>mutants_df.join(kill_df)\<close>: the left join of pandas on the index \<^verbatim>\<open>MutantNo\<close>.
  A row of the left frame without a partner is kept with a missing status; a row
  with several partners is repeated, once for each.
\<close>

definition join_row :: "kill_row list \<Rightarrow> mutant_row \<Rightarrow> (mutant_row \<times> string option) list" where
  "join_row kill_df m =
     (case filter (\<lambda>(no, status). no = MutantNo m) kill_df of
        [] \<Rightarrow> [(m, None)]
      | partners \<Rightarrow> map (\<lambda>(no, status). (m, Some status)) partners)"

definition join :: "mutant_row list \<Rightarrow> kill_row list \<Rightarrow> (mutant_row \<times> string option) list" where
  "join mutants_df kill_df = concat (map (join_row kill_df) mutants_df)"

definition Major_get_mutation_score :: "kill_row list \<Rightarrow> mutant_row list \<Rightarrow> error + mutation_report" where
  "Major_get_mutation_score kill_df mutants_df =
     (if kill_df = []
      then Inr \<lparr>killed = 0, live = int (length mutants_df), all = int (length mutants_df),
                score = 0, score_full = 0\<rparr>
      else
        (let df = join mutants_df kill_df;
             live_count = int (length (filter (\<lambda>(m, status). status = Some ''LIVE'') df));
             all_count = int (length df);
             killed_count = all_count - live_count
         in case py_truediv killed_count all_count of
              Inl e \<Rightarrow> Inl e
            | Inr sc \<Rightarrow>
                Inr \<lparr>killed = killed_count, live = live_count, all = all_count,
                     score = py_round sc 3, score_full = sc\<rparr>))"

subsection \<open>The tool registry\<close>

datatype tool_kind = Judy | Jumble | Major | Pit

record tool =
  kind :: tool_kind
  project_dir :: string
  class_under_mutation :: string

definition tool_name :: "tool_kind \<Rightarrow> string" where
  "tool_name k = (case k of Judy \<Rightarrow> ''judy'' | Jumble \<Rightarrow> ''jumble''
                   | Major \<Rightarrow> ''major'' | Pit \<Rightarrow> ''pit'')"

definition new_tool :: "tool_kind \<Rightarrow> string \<Rightarrow> string \<Rightarrow> tool" where
  "new_tool k dir cls = \<lparr>kind = k, project_dir = dir, class_under_mutation = cls\<rparr>"

text \<open>
  The dictionary \<^verbatim>\<open>valid_tools\<close> of \<^verbatim>\<open>get_tool\<close>, in insertion order, and Python's
  \<^verbatim>\<open>repr\<close> of a list of such names (none needs escaping).
\<close>

definition valid_tools :: "string \<Rightarrow> string \<Rightarrow> (string \<times> tool) list" where
  "valid_tools dir cls =
     [(tool_name Judy, new_tool Judy dir cls),
      (tool_name Jumble, new_tool Jumble dir cls),
      (tool_name Major, new_tool Major dir cls),
      (tool_name Pit, new_tool Pit dir cls)]"

fun join_comma :: "string list \<Rightarrow> string" where
  "join_comma [] = []"
| "join_comma [x] = x"
| "join_comma (x # xs) = x @ '', '' @ join_comma xs"

definition repr_list :: "string list \<Rightarrow> string" where
  "repr_list xs = ''['' @ join_comma (map (\<lambda>x. [CHR 0x27] @ x @ [CHR 0x27]) xs) @ '']''"

definition get_tool :: "string \<Rightarrow> string \<Rightarrow> string \<Rightarrow> error + tool" where
  "get_tool nm dir cls =
     (case map_of (valid_tools dir cls) nm of
        None \<Rightarrow>
          Inl (ValueError (''Invalid tool provided: '' @ nm @ ''. Valid tools are ''
                           @ repr_list (map fst (valid_tools dir cls))))
      | Some t \<Rightarrow> Inr t)"

fun get_tools :: "string list \<Rightarrow> string \<Rightarrow> string \<Rightarrow> error + tool list" where
  "get_tools [] dir cls = Inr []"
| "get_tools (nm # nms) dir cls =
     (case get_tool nm dir cls of
        Inl e \<Rightarrow> Inl e
      | Inr t \<Rightarrow> (case get_tools nms dir cls of Inl e \<Rightarrow> Inl e | Inr ts \<Rightarrow> Inr (t # ts)))"

definition get_all_tools :: "string \<Rightarrow> string \<Rightarrow> error + tool list" where
  "get_all_tools dir cls =
     get_tools [tool_name Judy, tool_name Jumble, tool_name Major, tool_name Pit] dir cls"

subsection \<open>Jumble: the console transcript\<close>

text \<open>
  The character classes of Python's \<^verbatim>\<open>re\<close> on \<^verbatim>\<open>str\<close> patterns, for the code
  points below 256: \<^verbatim>\<open>\s\<close>, \<^verbatim>\<open>\d\<close>, \<^verbatim>\<open>\w\<close> and the class
  \<^verbatim>\<open>[a-zA-Z.]\<close>.
\<close>

definition code :: "char \<Rightarrow> nat" where
  "code c = of_char c"

definition is_space :: "char \<Rightarrow> bool" where
  "is_space c = (let n = code c in (9 \<le> n \<and> n \<le> 13) \<or> (28 \<le> n \<and> n \<le> 32) \<or> n = 133 \<or> n = 160)"

definition is_digit :: "char \<Rightarrow> bool" where
  "is_digit c = (let n = code c in 48 \<le> n \<and> n \<le> 57)"

definition is_word :: "char \<Rightarrow> bool" where
  "is_word c =
     (let n = code c
      in (48 \<le> n \<and> n \<le> 57) \<or> (65 \<le> n \<and> n \<le> 90) \<or> n = 95 \<or> (97 \<le> n \<and> n \<le> 122)
         \<or> n = 170 \<or> n = 178 \<or> n = 179 \<or> n = 181 \<or> n = 185 \<or> n = 186
         \<or> (188 \<le> n \<and> n \<le> 190) \<or> (192 \<le> n \<and> n \<le> 214)
         \<or> (216 \<le> n \<and> n \<le> 246) \<or> 248 \<le> n)"

definition is_qualifier :: "char \<Rightarrow> bool" where
  "is_qualifier c =
     (let n = code c in (97 \<le> n \<and> n \<le> 122) \<or> (65 \<le> n \<and> n \<le> 90) \<or> n = 46)"

definition newline :: char where
  "newline = CHR 0x0A"

text \<open>
  The four patterns of \<^verbatim>\<open>Jumble._get_mutation_score\<close>:
  \<^item> \<^verbatim>\<open>start_pattern\<close> is \<^verbatim>\<open>Mutation points = \d+, unit test time limit \d+\.\d+s\<close>;
  \<^item> \<^verbatim>\<open>end_pattern\<close> is \<^verbatim>\<open>Jumbling took \d+\.\d+s\<close>;
  \<^item> \<^verbatim>\<open>live_mutant_pattern\<close> is \<^verbatim>\<open>M FAIL:\s*([a-zA-Z.]+):(\d+):\s*(.+)\<close>;
  \<^item> \<^verbatim>\<open>error_pattern\<close> is \<^verbatim>\<open>Score: \d% \(([\w ]+)\<close>.

  The pieces of the four patterns. A pattern is matched at the head of a string and
  gives the rest of the string behind the match. In every place but one a greedy
  repetition is followed by a character outside its class, so the longest repetition
  is the only one the backtracking matcher can accept.
\<close>

definition lit :: "string \<Rightarrow> string \<Rightarrow> string option" where
  "lit p s = (if prefix p s then Some (drop (length p) s) else None)"

definition many1 :: "(char \<Rightarrow> bool) \<Rightarrow> string \<Rightarrow> string option" where
  "many1 P s = (if takeWhile P s = [] then None else Some (dropWhile P s))"

definition many0 :: "(char \<Rightarrow> bool) \<Rightarrow> string \<Rightarrow> string option" where
  "many0 P s = Some (dropWhile P s)"

definition one :: "(char \<Rightarrow> bool) \<Rightarrow> string \<Rightarrow> string option" where
  "one P s = (case s of [] \<Rightarrow> None | c # cs \<Rightarrow> if P c then Some cs else None)"

text \<open>
  The tail \<^verbatim>\<open>\s*(.+)\<close> of the live-mutant pattern. The dot matches every character
  but the newline. When a character follows the white space, the group runs to the
  end of that line. When the white space reaches the end of the string, the matcher
  gives white space back until the group can start: at the last character that is not
  a newline, which the group then takes alone.
\<close>

definition ws_dotplus :: "string \<Rightarrow> string option" where
  "ws_dotplus s =
     (let r = dropWhile is_space s
      in if r \<noteq> [] then Some (dropWhile (\<lambda>c. c \<noteq> newline) r)
         else (let nl = takeWhile (\<lambda>c. c = newline) (rev s)
               in if length nl = length s then None else Some nl))"

definition start_pattern :: "string \<Rightarrow> string option" where
  "start_pattern s =
     Option.bind (Option.bind (Option.bind (Option.bind (Option.bind (Option.bind
       (lit ''Mutation points = '' s)
       (many1 is_digit)) (lit '', unit test time limit '')) (many1 is_digit))
       (lit ''.'')) (many1 is_digit)) (lit ''s'')"

definition end_pattern :: "string \<Rightarrow> string option" where
  "end_pattern s =
     Option.bind (Option.bind (Option.bind (Option.bind
       (lit ''Jumbling took '' s)
       (many1 is_digit)) (lit ''.'')) (many1 is_digit)) (lit ''s'')"

definition live_mutant_pattern :: "string \<Rightarrow> string option" where
  "live_mutant_pattern s =
     Option.bind (Option.bind (Option.bind (Option.bind (Option.bind (Option.bind
       (lit ''M FAIL:'' s)
       (many0 is_space)) (many1 is_qualifier)) (lit '':'')) (many1 is_digit))
       (lit '':'')) ws_dotplus"

text \<open>\<^verbatim>\<open>error_pattern\<close> gives its group 1, the longest run of word characters and blanks.\<close>

definition error_pattern :: "string \<Rightarrow> string option" where
  "error_pattern s =
     (case Option.bind (Option.bind (lit ''Score: '' s) (one is_digit)) (lit ''% ('') of
        None \<Rightarrow> None
      | Some r \<Rightarrow>
          (let g = takeWhile (\<lambda>c. is_word c \<or> c = CHR '' '') r
           in if g = [] then None else Some g))"

text \<open>
  \<^verbatim>\<open>pattern.search\<close>: the leftmost position where the pattern matches.
  \<open>search\<close> gives what the match gives, \<open>search_pos\<close> the position.
\<close>

fun search :: "(string \<Rightarrow> 'a option) \<Rightarrow> string \<Rightarrow> 'a option" where
  "search p [] = p []"
| "search p (c # cs) = (case p (c # cs) of Some r \<Rightarrow> Some r | None \<Rightarrow> search p cs)"

fun search_pos :: "(string \<Rightarrow> 'a option) \<Rightarrow> string \<Rightarrow> nat option" where
  "search_pos p [] = (case p [] of Some r \<Rightarrow> Some 0 | None \<Rightarrow> None)"
| "search_pos p (c # cs) =
     (case p (c # cs) of Some r \<Rightarrow> Some 0 | None \<Rightarrow> map_option Suc (search_pos p cs))"

text \<open>
  \<^verbatim>\<open>live_mutant_pattern.subn("", region)\<close>: the matches are taken from left to right,
  each search starting where the last match ended; the result is the text without
  the matches and the number of matches.
\<close>

function live_subn :: "string \<Rightarrow> string \<times> nat" where
  "live_subn [] = ([], 0)"
| "live_subn (c # cs) =
     (case live_mutant_pattern (c # cs) of
        Some rest \<Rightarrow> (case live_subn rest of (t, n) \<Rightarrow> (t, Suc n))
      | None \<Rightarrow> (case live_subn cs of (t, n) \<Rightarrow> (c # t, n)))"
  by pat_completeness auto
termination
proof (relation "measure length")
  show "wf (measure length)" by simp
next
  fix c :: char and cs rest :: string
  assume m: "live_mutant_pattern (c # cs) = Some rest"
  then obtain r where r: "lit ''M FAIL:'' (c # cs) = Some r"
    by (auto simp: live_mutant_pattern_def split: Option.bind_splits)
  have step: "\<And>f a b. f = many0 is_space \<or> f = many1 is_qualifier \<or> f = many1 is_digit
                 \<or> f = lit '':'' \<or> f = ws_dotplus \<Longrightarrow> f a = Some b \<Longrightarrow> length b \<le> length a"
  proof -
    fix f :: "string \<Rightarrow> string option" and a b :: string
    assume f: "f = many0 is_space \<or> f = many1 is_qualifier \<or> f = many1 is_digit
                 \<or> f = lit '':'' \<or> f = ws_dotplus" and ab: "f a = Some b"
    have dw: "\<And>P. length (dropWhile P a) \<le> length a"
      by (simp add: length_dropWhile_le)
    have tw: "length (takeWhile (\<lambda>c. c = newline) (rev a)) \<le> length a"
      using length_takeWhile_le [of "\<lambda>c. c = newline" "rev a"] by simp
    have dd: "length (dropWhile (\<lambda>c. c \<noteq> newline) (dropWhile is_space a)) \<le> length a"
      using length_dropWhile_le [of "\<lambda>c. c \<noteq> newline" "dropWhile is_space a"] dw [of is_space]
      by linarith
    from f ab show "length b \<le> length a"
      using dw tw dd
      by (auto simp: many0_def many1_def lit_def ws_dotplus_def Let_def split: if_splits)
  qed
  from r have lr: "length r < length (c # cs)"
    by (auto simp: lit_def split: if_splits)
  from m r obtain r1 r2 r3 r4 r5 where
    "many0 is_space r = Some r1" "many1 is_qualifier r1 = Some r2" "lit '':'' r2 = Some r3"
    "many1 is_digit r3 = Some r4" "lit '':'' r4 = Some r5" "ws_dotplus r5 = Some rest"
    by (auto simp: live_mutant_pattern_def split: Option.bind_splits)
  then have "length rest \<le> length r"
    using step [of "many0 is_space" r r1] step [of "many1 is_qualifier" r1 r2]
      step [of "lit '':''" r2 r3] step [of "many1 is_digit" r3 r4]
      step [of "lit '':''" r4 r5] step [of ws_dotplus r5 rest]
    by simp
  with lr show "(rest, c # cs) \<in> measure length" by simp
next
  fix c :: char and cs :: string
  show "(cs, c # cs) \<in> measure length" by simp
qed

definition verbose_bash_script :: string where
  "verbose_bash_script = ''jumble_verbose.sh''"

text \<open>
  The \<^verbatim>\<open>try\<close> block of \<^verbatim>\<open>Jumble._get_mutation_score\<close>: \<open>text[i:j]\<close>, or \<open>None\<close>
  when either search finds nothing and the method call on \<^verbatim>\<open>None\<close> raises
  \<^verbatim>\<open>AttributeError\<close>. \<open>search start_pattern text\<close> is \<open>text[i:]\<close>, and the end
  pattern is searched in it.
\<close>

definition find_region :: "string \<Rightarrow> string option" where
  "find_region text =
     (case search start_pattern text of
        None \<Rightarrow> None
      | Some rest \<Rightarrow>
          (case search_pos end_pattern rest of
             None \<Rightarrow> None
           | Some j \<Rightarrow> Some (take j rest)))"

definition cannot_find_msg :: "string \<Rightarrow> string" where
  "cannot_find_msg reason =
     ''Cannot find start pattern. Jumble message: '' @ reason @ [newline]
     @ ''Try running the verbose script to get more detailed information: ''
     @ verbose_bash_script"

text \<open>
  \<^verbatim>\<open>Jumble._get_mutation_score\<close>. In the handler, \<^verbatim>\<open>error_pattern.search(text)\<close> may
  itself be \<^verbatim>\<open>None\<close>; its \<^verbatim>\<open>.group(1)\<close> then raises a second
  \<^verbatim>\<open>AttributeError\<close>, which leaves the method.
\<close>

definition Jumble_get_mutation_score :: "string \<Rightarrow> error + mutation_report" where
  "Jumble_get_mutation_score text =
     (case find_region text of
        None \<Rightarrow>
          (case search error_pattern text of
             None \<Rightarrow> Inl AttributeError
           | Some reason \<Rightarrow> Inl (RuntimeError (cannot_find_msg reason)))
      | Some region \<Rightarrow>
          (case live_subn region of
             (killed_text, live_mutants_count) \<Rightarrow>
               (let killed_mutants_count = length (filter (\<lambda>c. \<not> is_space c) killed_text);
                    all_count = int live_mutants_count + int killed_mutants_count
                in case py_truediv (int killed_mutants_count) all_count of
                     Inl e \<Rightarrow> Inl e
                   | Inr sf \<Rightarrow>
                       Inr \<lparr>killed = int killed_mutants_count, live = int live_mutants_count,
                            all = all_count, score = py_round sf 3, score_full = sf\<rparr>)))"

text \<open>
  The counts in the words of the specification: the lines of the region (the region
  cut at its newlines), a line matching the live-mutant pattern when the pattern is
  found in it; \<open>live\<close> is the number of matching lines, \<open>killed\<close> the number of
  characters that are not white space in the other lines.
\<close>

fun split_lines :: "string \<Rightarrow> string list" where
  "split_lines [] = [[]]"
| "split_lines (c # cs) =
     (if c = newline then [] # split_lines cs
      else (case split_lines cs of [] \<Rightarrow> [[c]] | l # ls \<Rightarrow> (c # l) # ls))"












subsection \<open>read_config\<close>

text \<open>
  \<^verbatim>\<open>f.readlines()\<close> on the text of the file, as the text mode of \<^verbatim>\<open>open\<close> delivers it
  (line ends already translated to the newline): the lines, each with its newline.
  \<^verbatim>\<open>str.strip()\<close> removes the white space of both ends, \<^verbatim>\<open>str.split(sep, maxsplit=1)\<close>
  cuts at the first occurrence of the separator and raises \<^verbatim>\<open>ValueError\<close> for an
  empty separator.
\<close>

fun readlines :: "string \<Rightarrow> string list" where
  "readlines [] = []"
| "readlines (c # cs) =
     (if c = newline then [c] # readlines cs
      else (case readlines cs of [] \<Rightarrow> [[c]] | l # ls \<Rightarrow> (c # l) # ls))"

definition strip :: "string \<Rightarrow> string" where
  "strip s = rev (dropWhile is_space (rev (dropWhile is_space s)))"

definition startswith :: "string \<Rightarrow> string \<Rightarrow> bool" where
  "startswith s p = prefix p s"

fun cut :: "string \<Rightarrow> string \<Rightarrow> (string \<times> string) option" where
  "cut sep [] = None"
| "cut sep (c # cs) =
     (if prefix sep (c # cs) then Some ([], drop (length sep) (c # cs))
      else map_option (\<lambda>(a, b). (c # a, b)) (cut sep cs))"

definition split1 :: "string \<Rightarrow> string \<Rightarrow> error + string list" where
  "split1 sep s =
     (if sep = [] then Inl (ValueError ''empty separator'')
      else (case cut sep s of None \<Rightarrow> Inr [s] | Some (a, b) \<Rightarrow> Inr [a, b]))"

text \<open>The body of the loop of \<^verbatim>\<open>read_config\<close> on one line, and the loop.\<close>

definition read_config_line ::
  "string \<Rightarrow> (string \<rightharpoonup> string) \<Rightarrow> string \<Rightarrow> error + (string \<rightharpoonup> string)" where
  "read_config_line separator result line0 =
     (let line = strip line0
      in if line = [] \<or> startswith line ''#'' then Inr result
         else (case split1 separator (strip line) of
                 Inl e \<Rightarrow> Inl e
               | Inr splitted \<Rightarrow>
                   (if length splitted < 2 then Inr result
                    else Inr (result(strip (splitted ! 0) \<mapsto> strip (splitted ! 1))))))"

fun read_config_loop ::
  "string \<Rightarrow> (string \<rightharpoonup> string) \<Rightarrow> string list \<Rightarrow> error + (string \<rightharpoonup> string)" where
  "read_config_loop separator result [] = Inr result"
| "read_config_loop separator result (line # lines) =
     (case read_config_line separator result line of
        Inl e \<Rightarrow> Inl e
      | Inr result' \<Rightarrow> read_config_loop separator result' lines)"

definition read_config :: "string \<Rightarrow> string \<Rightarrow> error + (string \<rightharpoonup> string)" where
  "read_config text separator = read_config_loop separator Map.empty (readlines text)"

text \<open>
  The reader in the words of the specification, for the separator \<^verbatim>\<open>=\<close>: a blank
  line (white space only), a line starting with \<^verbatim>\<open>#\<close> and a line without \<^verbatim>\<open>=\<close> give
  no entry; any other line gives the text before its first \<^verbatim>\<open>=\<close> as key and the text
  behind it as value. The result maps a key to the value of its last entry.
  \<open>lookup\<close> reads a key in what the reader returned.
\<close>

definition spec_config_entry :: "string \<Rightarrow> (string \<times> string) option" where
  "spec_config_entry line =
     (if list_all is_space line then None
      else if hd line = CHR ''#'' then None
      else if CHR ''='' \<notin> set line then None
      else Some (takeWhile (\<lambda>c. c \<noteq> CHR ''='') line,
                 tl (dropWhile (\<lambda>c. c \<noteq> CHR ''='') line)))"

definition spec_read_config :: "string \<Rightarrow> (string \<rightharpoonup> string)" where
  "spec_read_config text = map_of (rev (List.map_filter spec_config_entry (split_lines text)))"

definition lookup :: "error + (string \<rightharpoonup> string) \<Rightarrow> string \<Rightarrow> string option" where
  "lookup result key = (case result of Inl e \<Rightarrow> None | Inr m \<Rightarrow> m key)"

text \<open>
  The same with the white space removed from the ends of every line before it is
  examined, and from the ends of key and value.
\<close>

definition stripped_config_entry :: "string \<Rightarrow> (string \<times> string) option" where
  "stripped_config_entry line0 =
     (let line = strip line0
      in if line = [] then None
         else if hd line = CHR ''#'' then None
         else if CHR ''='' \<notin> set line then None
         else Some (strip (takeWhile (\<lambda>c. c \<noteq> CHR ''='') line),
                    strip (tl (dropWhile (\<lambda>c. c \<noteq> CHR ''='') line))))"

definition stripped_read_config :: "string \<Rightarrow> (string \<rightharpoonup> string)" where
  "stripped_read_config text = map_of (rev (List.map_filter stripped_config_entry (readlines text)))"

subsection \<open>Example reports\<close>

definition row :: "int \<Rightarrow> mutant_row" where
  "row n = \<lparr>MutantNo = n, Operator = ''ROR'', From = ''<'', To = ''<='',
            Signature = ''Foo@bar'', LineNumber = 10 + n, Description = ''a < b |==> a <= b''\<rparr>"

definition transcript :: string where
  "transcript =
     ''Mutating Foo'' @ [newline]
     @ ''Mutation points = 8, unit test time limit 2.02s'' @ [newline]
     @ ''M FAIL: a.Foo:31: negated conditional'' @ [newline]
     @ ''M FAIL: a.Foo:33: 0 -> 1'' @ [newline]
     @ ''M FAIL: a.Foo:35: + -> -'' @ [newline]
     @ ''. . . . .'' @ [newline]
     @ ''Jumbling took 5.1s'' @ [newline]
     @ ''Score: 62%''"

definition five_statuses :: "kill_row list" where
  "five_statuses = [(1, ''LIVE''), (2, ''FAIL''), (3, ''LIVE''), (4, ''TIME''), (5, ''EXC'')]"

definition five_mutants :: "mutant_row list" where
  "five_mutants = [row 1, row 2, row 3, row 4, row 5]"

definition foo_entry :: judy_class where
  "foo_entry = \<lparr>name = ''Foo'', mutantsCount = 10, mutantsKilledCount = 7\<rparr>"

definition bar_entry :: judy_class where
  "bar_entry = \<lparr>name = ''Bar'', mutantsCount = 4, mutantsKilledCount = 1\<rparr>"

definition six_children :: "string option list" where
  "six_children =
     [Some ''true'', Some ''false'', Some ''true'', Some ''true'', Some ''false'', Some ''true'']"

definition config_text :: string where
  "config_text =
     ''# defects4j'' @ [newline] @ [newline]
     @ ''d4j.project.id = Cli'' @ [newline]
     @ ''  # d4j.bug.id=1'' @ [newline]
     @ ''no separator here'' @ [newline]
     @ ''d4j.classes.modified=org.Foo=Bar '' @ [newline]
     @ ''d4j.project.id=Lang''"





definition eighty_entry :: judy_class where
  "eighty_entry = \<lparr>name = ''Foo'', mutantsCount = 80, mutantsKilledCount = 1\<rparr>"

definition eighty_children :: "string option list" where
  "eighty_children = replicate 3 (Some ''true'') @ replicate 77 (Some ''false'')"

section \<open>Properties\<close>

subsection \<open>Division, rounding and the loops\<close>

lemma py_round_0: "py_round 0 n = 0"
  by (simp add: py_round_def double_def round_half_even_def)

lemma pow2_powi: "pow2 e = 2 powi e"
  by (simp add: pow2_def power_int_def field_simps)

lemma pow2_pos: "0 < pow2 e"
  by (simp add: pow2_powi)

lemma pow2_mono: "e \<le> e' \<Longrightarrow> pow2 e \<le> pow2 e'"
  by (simp add: pow2_powi power_int_increasing)

lemma round_half_even_close: "\<bar>of_int (round_half_even y) - y\<bar> \<le> 1 / 2"
proof -
  define f where "f = \<lfloor>y\<rfloor>"
  define d where "d = y - of_int f"
  have f: "of_int f \<le> y" "y < of_int f + 1"
    unfolding f_def by linarith+
  have r: "round_half_even y = (if d < 1 / 2 then f else if 1 / 2 < d then f + 1
         else if even f then f else f + 1)"
    by (simp add: round_half_even_def Let_def f_def d_def)
  consider "d < 1 / 2" | "1 / 2 < d" | "d = 1 / 2" by linarith
  then show ?thesis
  proof cases
    case 1
    with f r show ?thesis by (simp add: d_def abs_if)
  next
    case 2
    with f r show ?thesis by (simp add: d_def abs_if)
  next
    case 3
    with f r show ?thesis by (simp add: d_def abs_if)
  qed
qed

lemma bitlen_mono: "a \<le> b \<Longrightarrow> bitlen a \<le> bitlen b"
  by (simp add: bitlen_def floorlog_mono)

lemma exponent_unit:
  assumes "\<bar>x\<bar> \<le> 1"
  shows "exponent x \<le> 0"
proof -
  obtain a b where ab: "quotient_of \<bar>x\<bar> = (a, b)"
    by (cases "quotient_of \<bar>x\<bar>")
  then have b: "0 < b" by (rule quotient_of_denom_pos)
  from ab have x: "\<bar>x\<bar> = of_int a / of_int b" by (rule quotient_of_div)
  with assms b have "a \<le> b"
    by (simp add: field_simps)
  then have "bitlen a - bitlen b \<le> 0"
    using bitlen_mono [of a b] by simp
  then show ?thesis
    by (simp add: exponent_def ab Let_def)
qed

lemma double_close:
  assumes "\<bar>x\<bar> \<le> 1"
  shows "\<bar>double x - x\<bar> \<le> 1 / 2 ^ 53"
proof (cases "x = 0")
  case True
  then show ?thesis by (simp add: double_def)
next
  case False
  define q where "q = pow2 (max (exponent x) (- 1022) - 52)"
  have q: "0 < q" by (simp add: q_def pow2_pos)
  have "max (exponent x) (- 1022) - 52 \<le> - 52"
    using exponent_unit [OF assms] by simp
  then have "q \<le> pow2 (- 52)"
    unfolding q_def by (rule pow2_mono)
  then have q52: "q \<le> 1 / 2 ^ 52" by (simp add: pow2_def)
  have d: "double x = of_int (round_half_even (x / q)) * q"
    using False by (simp add: double_def q_def Let_def)
  have "double x - x = (of_int (round_half_even (x / q)) - x / q) * q"
    using q by (simp add: d field_simps)
  then have "\<bar>double x - x\<bar> = \<bar>of_int (round_half_even (x / q)) - x / q\<bar> * q"
    using q by (simp add: abs_mult)
  also have "\<dots> \<le> 1 / 2 * q"
    using round_half_even_close [of "x / q"] q by (intro mult_right_mono) simp_all
  also have "\<dots> \<le> 1 / 2 * (1 / 2 ^ 52)"
    using q52 by simp
  finally show ?thesis by simp
qed

lemma py_round_thousandth: "py_round x 3 = of_int (round_half_even (double x * 1000)) / 1000"
  by (simp add: py_round_def)

lemma py_round_close:
  assumes "\<bar>x\<bar> \<le> 1"
  shows "\<bar>py_round x 3 - x\<bar> \<le> 1 / 2000 + 1 / 2 ^ 53"
proof -
  let ?d = "double x"
  have "py_round x 3 - ?d = (of_int (round_half_even (?d * 1000)) - ?d * 1000) / 1000"
    by (simp add: py_round_thousandth field_simps)
  then have "\<bar>py_round x 3 - ?d\<bar> = \<bar>of_int (round_half_even (?d * 1000)) - ?d * 1000\<bar> / 1000"
    by (simp only: abs_divide)
  also have "\<dots> \<le> (1 / 2) / 1000"
    using round_half_even_close [of "?d * 1000"] by (intro divide_right_mono) simp_all
  finally have 1: "\<bar>py_round x 3 - ?d\<bar> \<le> 1 / 2000" by simp
  have "\<bar>py_round x 3 - x\<bar> \<le> \<bar>py_round x 3 - ?d\<bar> + \<bar>?d - x\<bar>"
    by simp
  with 1 double_close [OF assms] show ?thesis by linarith
qed

lemma exponent_bounds:
  assumes "x \<noteq> 0"
  shows "pow2 (exponent x) \<le> \<bar>x\<bar> \<and> \<bar>x\<bar> < pow2 (exponent x + 1)"
proof -
  obtain a b where ab: "quotient_of \<bar>x\<bar> = (a, b)"
    by (cases "quotient_of \<bar>x\<bar>")
  then have b: "0 < b" by (rule quotient_of_denom_pos)
  from ab have x: "\<bar>x\<bar> = of_int a / of_int b" by (rule quotient_of_div)
  have "0 < \<bar>x\<bar>" using assms by simp
  with x b have "0 < rat_of_int a"
    by (simp add: zero_less_divide_iff)
  then have a: "0 < a" by simp
  let ?la = "bitlen a" and ?lb = "bitlen b"
  from bitlen_bounds [OF a] have a1: "2 ^ nat (?la - 1) \<le> a" and a2: "a < 2 ^ nat ?la" by simp_all
  from bitlen_bounds [OF b] have b1: "2 ^ nat (?lb - 1) \<le> b" and b2: "b < 2 ^ nat ?lb" by simp_all
  have la: "1 \<le> ?la" and lb: "1 \<le> ?lb"
    using a b bitlen_eq_zero_iff [of a] bitlen_eq_zero_iff [of b] bitlen_nonneg [of a] bitlen_nonneg [of b]
    by linarith+
  have ra1: "pow2 (?la - 1) \<le> of_int a" and ra2: "of_int a < pow2 ?la"
    and rb1: "pow2 (?lb - 1) \<le> of_int b" and rb2: "of_int b < pow2 ?lb"
    using a1 a2 b1 b2 la lb
    by (simp_all add: pow2_def)
  have split: "\<And>e e'. pow2 (e - e') = pow2 e / pow2 e'"
    by (simp add: pow2_powi power_int_diff)
  have lower: "pow2 (?la - ?lb - 1) \<le> \<bar>x\<bar>"
  proof -
    have "pow2 (?la - ?lb - 1) = pow2 (?la - 1) / pow2 ?lb"
      using split [of "?la - 1" ?lb] by (simp add: algebra_simps)
    also have "\<dots> \<le> of_int a / pow2 ?lb"
      using ra1 pow2_pos [of ?lb] by (simp add: divide_right_mono)
    also have "\<dots> \<le> of_int a / of_int b"
      using rb2 a b by (intro divide_left_mono) (simp_all add: pow2_pos)
    finally show ?thesis by (simp add: x)
  qed
  have upper: "\<bar>x\<bar> < pow2 (?la - ?lb + 1)"
  proof -
    have "of_int a / of_int b < pow2 ?la / of_int b"
      using ra2 b by (simp add: divide_strict_right_mono)
    also have "\<dots> \<le> pow2 ?la / pow2 (?lb - 1)"
      using rb1 b pow2_pos [of ?la] pow2_pos [of "?lb - 1"]
      by (intro divide_left_mono) simp_all
    also have "\<dots> = pow2 (?la - ?lb + 1)"
      using split [of ?la "?lb - 1"] by (simp add: algebra_simps)
    finally show ?thesis by (simp add: x)
  qed
  show ?thesis
  proof (cases "pow2 (?la - ?lb) \<le> \<bar>x\<bar>")
    case True
    with upper show ?thesis by (simp add: exponent_def ab Let_def)
  next
    case False
    with lower show ?thesis by (simp add: exponent_def ab Let_def)
  qed
qed

lemma score_close:
  assumes "\<bar>k\<bar> \<le> \<bar>a\<bar>" and "a \<noteq> 0"
  shows "\<bar>py_round (of_int k / of_int a) 3 - of_int k / of_int a\<bar> \<le> 1 / 2000 + 1 / 2 ^ 53"
proof -
  have "\<bar>rat_of_int k\<bar> \<le> \<bar>rat_of_int a\<bar>"
    using assms(1) by (metis of_int_abs of_int_le_iff)
  then have "\<bar>rat_of_int k / rat_of_int a\<bar> \<le> 1"
    using assms(2) by (simp add: abs_divide)
  then show ?thesis by (rule py_round_close)
qed

lemma Pit_loop_sum:
  "Pit_loop tree k l = Inr (k', l') \<Longrightarrow> k' + l' = k + l + int (length tree) \<and> k \<le> k' \<and> l \<le> l'"
proof (induction tree arbitrary: k l)
  case Nil
  then show ?case by simp
next
  case (Cons c tree)
  then show ?case
    by (fastforce simp: bool_mapper_def split: if_splits sum.splits)
qed

lemma Pit_loop_counts:
  "\<forall>c\<in>set tree. c = Some ''true'' \<or> c = Some ''false'' \<Longrightarrow>
   Pit_loop tree k l =
     Inr (k + int (length (filter (\<lambda>c. c = Some ''true'') tree)),
          l + int (length (filter (\<lambda>c. c = Some ''false'') tree)))"
  by (induction tree arbitrary: k l) (auto simp: bool_mapper_def)

lemma Judy_Inr:
  "Judy_get_mutation_score cls classes = Inr r \<Longrightarrow>
     all r \<noteq> 0 \<and> killed r + live r = all r
     \<and> score_full r = of_int (killed r) / of_int (all r)
     \<and> score r = py_round (of_int (killed r) / of_int (all r)) 3"
  by (auto simp: Judy_get_mutation_score_def Let_def py_truediv_def split: if_splits)

lemma Pit_Inr:
  "Pit_get_mutation_score tree = Inr r \<Longrightarrow>
     0 < all r \<and> killed r + live r = all r
     \<and> score_full r = of_int (killed r) / of_int (all r)
     \<and> score r = py_round (of_int (killed r) / of_int (all r)) 3"
proof -
  assume a: "Pit_get_mutation_score tree = Inr r"
  then obtain k l where kl: "Pit_loop tree 0 0 = Inr (k, l)"
    by (auto simp: Pit_get_mutation_score_def split: sum.splits)
  from Pit_loop_sum [OF kl] have "0 \<le> k" "0 \<le> l" by simp_all
  with a kl show ?thesis
    by (auto simp: Pit_get_mutation_score_def Let_def py_truediv_def split: if_splits)
qed

lemma Jumble_Inr:
  "Jumble_get_mutation_score text = Inr r \<Longrightarrow>
     0 < all r \<and> killed r + live r = all r
     \<and> score_full r = of_int (killed r) / of_int (all r)
     \<and> score r = py_round (of_int (killed r) / of_int (all r)) 3"
  by (auto simp: Jumble_get_mutation_score_def Let_def py_truediv_def
           split: if_splits option.splits prod.splits)

lemma Major_empty:
  "Major_get_mutation_score [] mutants_df =
     Inr \<lparr>killed = 0, live = int (length mutants_df), all = int (length mutants_df),
          score = 0, score_full = 0\<rparr>"
  by (simp add: Major_get_mutation_score_def)

lemma Major_Inr:
  "Major_get_mutation_score kill_df mutants_df = Inr r \<Longrightarrow>
     0 \<le> all r \<and> killed r + live r = all r
     \<and> score_full r = (if all r = 0 then 0 else of_int (killed r) / of_int (all r))
     \<and> score r = (if all r = 0 then 0 else py_round (of_int (killed r) / of_int (all r)) 3)
     \<and> (all r = 0 \<longrightarrow> kill_df = [])"
  by (auto simp: Major_get_mutation_score_def Let_def py_truediv_def py_round_0 split: if_splits)

lemma Jumble_range:
  "Jumble_get_mutation_score text = Inr r \<Longrightarrow> 0 \<le> killed r \<and> killed r \<le> all r"
  by (auto simp: Jumble_get_mutation_score_def Let_def py_truediv_def
           split: if_splits option.splits prod.splits)

lemma Pit_range:
  "Pit_get_mutation_score tree = Inr r \<Longrightarrow> 0 \<le> killed r \<and> killed r \<le> all r"
proof -
  assume a: "Pit_get_mutation_score tree = Inr r"
  then obtain k l where kl: "Pit_loop tree 0 0 = Inr (k, l)"
    by (auto simp: Pit_get_mutation_score_def split: sum.splits)
  from Pit_loop_sum [OF kl] have "0 \<le> k" "0 \<le> l" by simp_all
  with a kl show ?thesis
    by (auto simp: Pit_get_mutation_score_def Let_def py_truediv_def split: if_splits)
qed

lemma Major_range:
  "Major_get_mutation_score kill_df mutants_df = Inr r \<Longrightarrow> 0 \<le> killed r \<and> killed r \<le> all r"
proof -
  have "length (filter (\<lambda>(m, status). status = Some ''LIVE'') (join mutants_df kill_df))
        \<le> length (join mutants_df kill_df)"
    by (rule length_filter_le)
  moreover assume "Major_get_mutation_score kill_df mutants_df = Inr r"
  ultimately show ?thesis
    by (auto simp: Major_get_mutation_score_def Let_def py_truediv_def split: if_splits)
qed

lemma Judy_example:
  "Judy_get_mutation_score ''Foo'' [bar_entry, foo_entry]
   = Inr \<lparr>killed = 7, live = 3, all = 10, score = 7 / 10, score_full = 7 / 10\<rparr>"
  by code_simp

lemma Jumble_example:
  "Jumble_get_mutation_score transcript
   = Inr \<lparr>killed = 5, live = 3, all = 8, score = 5 / 8, score_full = 5 / 8\<rparr>"
  by code_simp

lemma Major_example:
  "Major_get_mutation_score five_statuses five_mutants
   = Inr \<lparr>killed = 3, live = 2, all = 5, score = 3 / 5, score_full = 3 / 5\<rparr>"
  by code_simp

lemma Pit_example:
  "Pit_get_mutation_score six_children
   = Inr \<lparr>killed = 4, live = 2, all = 6, score = 667 / 1000, score_full = 2 / 3\<rparr>"
  by code_simp

lemma rounding_examples:
  "Judy_get_mutation_score ''Foo'' [eighty_entry]
     = Inr \<lparr>killed = 1, live = 79, all = 80, score = 13 / 1000, score_full = 1 / 80\<rparr>"
  "Pit_get_mutation_score eighty_children
     = Inr \<lparr>killed = 3, live = 77, all = 80, score = 37 / 1000, score_full = 3 / 80\<rparr>"
  by code_simp+

lemma join_row_length: "1 \<le> length (join_row kill_df m)"
  by (cases "filter (\<lambda>(no, status). no = MutantNo m) kill_df") (simp_all add: join_row_def)

lemma join_Nil [simp]: "join [] kill_df = []"
  by (simp add: join_def)

lemma join_Cons: "join (m # ms) kill_df = join_row kill_df m @ join ms kill_df"
  by (simp add: join_def)

lemma join_append: "join (ms1 @ ms2) kill_df = join ms1 kill_df @ join ms2 kill_df"
  by (simp add: join_def)

lemma join_length_ge: "length mutants_df \<le> length (join mutants_df kill_df)"
proof (induction mutants_df)
  case Nil
  then show ?case by simp
next
  case (Cons m ms)
  then show ?case
    using join_row_length [of kill_df m] by (simp add: join_Cons)
qed

lemma join_eq_Nil: "join mutants_df kill_df = [] \<longleftrightarrow> mutants_df = []"
  using join_length_ge [of mutants_df kill_df] by (cases mutants_df) auto

lemma filter_key_distinct:
  "distinct (map fst kill_df) \<Longrightarrow> length (filter (\<lambda>(no, status). no = k) kill_df) \<le> 1"
proof (induction kill_df)
  case Nil
  then show ?case by simp
next
  case (Cons a kill_df)
  obtain no st where a: "a = (no, st)" by (cases a)
  show ?case
  proof (cases "no = k")
    case True
    with Cons.prems a have "k \<notin> fst ` set kill_df" by auto
    then have "filter (\<lambda>(no, status). no = k) kill_df = []"
      by (force simp: filter_empty_conv)
    with a True show ?thesis by simp
  next
    case False
    with Cons a show ?thesis by simp
  qed
qed

lemma join_row_distinct:
  assumes "distinct (map fst kill_df)"
  shows "length (join_row kill_df m) = 1"
proof -
  from filter_key_distinct [OF assms, of "MutantNo m"]
  have "length (filter (\<lambda>(no, status). no = MutantNo m) kill_df) \<le> 1" .
  then show ?thesis
    by (cases "filter (\<lambda>(no, status). no = MutantNo m) kill_df") (auto simp: join_row_def)
qed

lemma join_length_distinct:
  "distinct (map fst kill_df) \<Longrightarrow> length (join mutants_df kill_df) = length mutants_df"
  by (induction mutants_df) (simp_all add: join_Cons join_row_distinct)

lemma join_row_unmatched:
  "MutantNo m \<notin> fst ` set kill_df \<Longrightarrow> join_row kill_df m = [(m, None)]"
proof -
  assume "MutantNo m \<notin> fst ` set kill_df"
  then have "filter (\<lambda>(no, status). no = MutantNo m) kill_df = []"
    by (force simp: filter_empty_conv)
  then show ?thesis by (simp add: join_row_def)
qed

lemma Major_nonempty:
  assumes "kill_df \<noteq> []" and "mutants_df \<noteq> []"
  shows "Major_get_mutation_score kill_df mutants_df =
     Inr \<lparr>killed = int (length (join mutants_df kill_df))
                     - int (length (filter (\<lambda>(m, status). status = Some ''LIVE'') (join mutants_df kill_df))),
          live = int (length (filter (\<lambda>(m, status). status = Some ''LIVE'') (join mutants_df kill_df))),
          all = int (length (join mutants_df kill_df)),
          score = py_round (of_int (int (length (join mutants_df kill_df))
                     - int (length (filter (\<lambda>(m, status). status = Some ''LIVE'') (join mutants_df kill_df))))
                     / of_int (int (length (join mutants_df kill_df)))) 3,
          score_full = of_int (int (length (join mutants_df kill_df))
                     - int (length (filter (\<lambda>(m, status). status = Some ''LIVE'') (join mutants_df kill_df))))
                     / of_int (int (length (join mutants_df kill_df)))\<rparr>"
  using assms join_eq_Nil [of mutants_df kill_df]
  by (simp add: Major_get_mutation_score_def Let_def py_truediv_def)

lemma Major_unmatched_single:
  assumes "kill_df \<noteq> []" and "MutantNo m \<notin> fst ` set kill_df"
  shows "Major_get_mutation_score kill_df [m]
           = Inr \<lparr>killed = 1, live = 0, all = 1, score = 1, score_full = 1\<rparr>"
proof -
  have r1: "py_round 1 3 = 1" by code_simp
  show ?thesis
    using assms r1
    by (simp add: Major_get_mutation_score_def Let_def py_truediv_def join_Cons join_row_unmatched)
qed

lemma Major_unmatched_insert:
  assumes "kill_df \<noteq> []" and "MutantNo m \<notin> fst ` set kill_df"
    and a: "Major_get_mutation_score kill_df (before @ after) = Inr r"
  shows "Major_get_mutation_score kill_df (before @ m # after)
           = Inr \<lparr>killed = killed r + 1, live = live r, all = all r + 1,
                  score = py_round (of_int (killed r + 1) / of_int (all r + 1)) 3,
                  score_full = of_int (killed r + 1) / of_int (all r + 1)\<rparr>
         \<and> score_full r \<le> of_int (killed r + 1) / of_int (all r + 1)"
proof -
  have j: "join (before @ m # after) kill_df
           = join before kill_df @ (m, None) # join after kill_df"
    using assms(2) by (simp add: join_append join_Cons join_row_unmatched)
  from a assms(1) have ne: "before @ after \<noteq> []"
    by (auto simp: Major_get_mutation_score_def Let_def py_truediv_def split: if_splits)
  from a Major_nonempty [OF assms(1) ne] have
    r: "all r = int (length (join (before @ after) kill_df))"
       "live r = int (length (filter (\<lambda>(m, status). status = Some ''LIVE'') (join (before @ after) kill_df)))"
       "killed r = all r - live r"
       "score_full r = of_int (killed r) / of_int (all r)"
    by auto
  have ne': "before @ m # after \<noteq> []" by simp
  have len': "int (length (join (before @ m # after) kill_df)) = all r + 1"
    using r(1) j by (simp add: join_append)
  have live': "int (length (filter (\<lambda>(m, status). status = Some ''LIVE'')
                 (join (before @ m # after) kill_df))) = live r"
    using r(2) j by (simp add: join_append)
  have k: "all r + 1 - live r = killed r + 1"
    using r(3) by simp
  have 1: "Major_get_mutation_score kill_df (before @ m # after)
           = Inr \<lparr>killed = killed r + 1, live = live r, all = all r + 1,
                  score = py_round (of_int (killed r + 1) / of_int (all r + 1)) 3,
                  score_full = of_int (killed r + 1) / of_int (all r + 1)\<rparr>"
    unfolding Major_nonempty [OF assms(1) ne'] len' live' k ..
  have pos: "0 < all r" using r(1) ne join_eq_Nil [of "before @ after" kill_df] by simp
  have le: "killed r \<le> all r" using r by simp
  have "rat_of_int (killed r) \<le> rat_of_int (all r)"
    using le by simp
  then have "rat_of_int (killed r) / of_int (all r) \<le> of_int (killed r + 1) / of_int (all r + 1)"
    using pos by (simp add: divide_simps algebra_simps)
  then have 2: "score_full r \<le> of_int (killed r + 1) / of_int (all r + 1)"
    using r(4) by simp
  from 1 2 show ?thesis by simp
qed

subsection \<open>Claims on all four parsers\<close>

text \<open>
  Claim C1. Whenever one of the four parsers (Judy, Jumble, Major, Pit) returns a
  record, that record satisfies \<open>killed + live = all\<close>. Major's empty kill-status
  table with no described mutant gives the record with \<open>all = 0\<close>, which satisfies
  it as well.
\<close>

theorem parsers_killed_live_all:
  "(Judy_get_mutation_score cls classes = Inr rA \<longrightarrow> killed rA + live rA = all rA)
   \<and> (Jumble_get_mutation_score text = Inr rB \<longrightarrow> killed rB + live rB = all rB)
   \<and> (Major_get_mutation_score kill_df mutants_df = Inr rC \<longrightarrow> killed rC + live rC = all rC)
   \<and> (Pit_get_mutation_score tree = Inr rD \<longrightarrow> killed rD + live rD = all rD)
   \<and> Major_get_mutation_score [] [] =
         Inr \<lparr>killed = 0, live = 0, all = 0, score = 0, score_full = 0\<rparr>"
  using Judy_Inr [of cls classes rA] Jumble_Inr [of "text" rB]
    Major_Inr [of kill_df mutants_df rC] Pit_Inr [of tree rD] Major_empty [of "[]"]
  by simp

theorem parsers_killed_live_all_witness:
  "Judy_get_mutation_score ''Foo'' [bar_entry, foo_entry]
     = Inr \<lparr>killed = 7, live = 3, all = 10, score = 7 / 10, score_full = 7 / 10\<rparr>
   \<and> Jumble_get_mutation_score transcript
     = Inr \<lparr>killed = 5, live = 3, all = 8, score = 5 / 8, score_full = 5 / 8\<rparr>
   \<and> Major_get_mutation_score
       five_statuses five_mutants
     = Inr \<lparr>killed = 3, live = 2, all = 5, score = 3 / 5, score_full = 3 / 5\<rparr>
   \<and> Pit_get_mutation_score six_children
     = Inr \<lparr>killed = 4, live = 2, all = 6, score = 667 / 1000, score_full = 2 / 3\<rparr>
   \<and> (7::int) + 3 = 10 \<and> (5::int) + 3 = 8 \<and> (3::int) + 2 = 5 \<and> (4::int) + 2 = 6"
  using parsers_killed_live_all
    [of "''Foo''" "[bar_entry, foo_entry]"
      "\<lparr>killed = 7, live = 3, all = 10, score = 7 / 10, score_full = 7 / 10\<rparr>"
      transcript
      "\<lparr>killed = 5, live = 3, all = 8, score = 5 / 8, score_full = 5 / 8\<rparr>"
      five_statuses five_mutants
      "\<lparr>killed = 3, live = 2, all = 5, score = 3 / 5, score_full = 3 / 5\<rparr>"
      six_children
      "\<lparr>killed = 4, live = 2, all = 6, score = 667 / 1000, score_full = 2 / 3\<rparr>"]
    Judy_example Jumble_example Major_example Pit_example
  by simp

text \<open>
  Claim C2. For every record a parser returns, \<open>score_full\<close> is \<open>killed / all\<close> and
  \<open>score\<close> is that quotient rounded to three decimals as Python's \<^verbatim>\<open>round\<close> does,
  whenever \<open>all > 0\<close>: a number of three decimals within \<open>1 / 2000 + 1 / 2 ^ 53\<close> of the
  quotient. A record with \<open>all = 0\<close> is returned by Major alone, and only for an
  empty kill-status table; its \<open>score\<close> and \<open>score_full\<close> are 0. Judy, Jumble and Pit
  never return a record with \<open>all = 0\<close>, and Major on an empty kill-status table
  always returns a record: no division by zero is raised there.
\<close>

theorem parsers_score_rounding:
  "(Judy_get_mutation_score cls classes = Inr rA \<longrightarrow>
      all rA \<noteq> 0 \<and> score_full rA = of_int (killed rA) / of_int (all rA)
      \<and> score rA = py_round (of_int (killed rA) / of_int (all rA)) 3
      \<and> (\<bar>killed rA\<bar> \<le> \<bar>all rA\<bar> \<longrightarrow>
           \<bar>score rA - of_int (killed rA) / of_int (all rA)\<bar> \<le> 1 / 2000 + 1 / 2 ^ 53))
   \<and> (Jumble_get_mutation_score text = Inr rB \<longrightarrow>
      0 < all rB \<and> score_full rB = of_int (killed rB) / of_int (all rB)
      \<and> score rB = py_round (of_int (killed rB) / of_int (all rB)) 3
      \<and> \<bar>score rB - of_int (killed rB) / of_int (all rB)\<bar> \<le> 1 / 2000 + 1 / 2 ^ 53)
   \<and> (Pit_get_mutation_score tree = Inr rD \<longrightarrow>
      0 < all rD \<and> score_full rD = of_int (killed rD) / of_int (all rD)
      \<and> score rD = py_round (of_int (killed rD) / of_int (all rD)) 3
      \<and> \<bar>score rD - of_int (killed rD) / of_int (all rD)\<bar> \<le> 1 / 2000 + 1 / 2 ^ 53)
   \<and> (Major_get_mutation_score kill_df mutants_df = Inr rC \<longrightarrow>
      (0 < all rC \<longrightarrow> score_full rC = of_int (killed rC) / of_int (all rC)
                     \<and> score rC = py_round (of_int (killed rC) / of_int (all rC)) 3
                     \<and> \<bar>score rC - of_int (killed rC) / of_int (all rC)\<bar> \<le> 1 / 2000 + 1 / 2 ^ 53)
      \<and> (all rC = 0 \<longrightarrow> kill_df = [] \<and> score rC = 0 \<and> score_full rC = 0))
   \<and> Major_get_mutation_score [] mutants_df
        = Inr \<lparr>killed = 0, live = int (length mutants_df), all = int (length mutants_df),
               score = 0, score_full = 0\<rparr>
   \<and> (\<exists>n. py_round x 3 = of_int n / 1000)"
proof -
  have judy: "Judy_get_mutation_score cls classes = Inr rA \<longrightarrow>
      all rA \<noteq> 0 \<and> score_full rA = of_int (killed rA) / of_int (all rA)
      \<and> score rA = py_round (of_int (killed rA) / of_int (all rA)) 3
      \<and> (\<bar>killed rA\<bar> \<le> \<bar>all rA\<bar> \<longrightarrow>
           \<bar>score rA - of_int (killed rA) / of_int (all rA)\<bar> \<le> 1 / 2000 + 1 / 2 ^ 53)"
    using Judy_Inr [of cls classes rA] score_close [of "killed rA" "all rA"] by auto
  have jumble: "Jumble_get_mutation_score text = Inr rB \<longrightarrow>
      0 < all rB \<and> score_full rB = of_int (killed rB) / of_int (all rB)
      \<and> score rB = py_round (of_int (killed rB) / of_int (all rB)) 3
      \<and> \<bar>score rB - of_int (killed rB) / of_int (all rB)\<bar> \<le> 1 / 2000 + 1 / 2 ^ 53"
    using Jumble_Inr [of "text" rB] Jumble_range [of "text" rB] score_close [of "killed rB" "all rB"]
    by auto
  have pit: "Pit_get_mutation_score tree = Inr rD \<longrightarrow>
      0 < all rD \<and> score_full rD = of_int (killed rD) / of_int (all rD)
      \<and> score rD = py_round (of_int (killed rD) / of_int (all rD)) 3
      \<and> \<bar>score rD - of_int (killed rD) / of_int (all rD)\<bar> \<le> 1 / 2000 + 1 / 2 ^ 53"
    using Pit_Inr [of tree rD] Pit_range [of tree rD] score_close [of "killed rD" "all rD"]
    by auto
  have major: "Major_get_mutation_score kill_df mutants_df = Inr rC \<longrightarrow>
      (0 < all rC \<longrightarrow> score_full rC = of_int (killed rC) / of_int (all rC)
                     \<and> score rC = py_round (of_int (killed rC) / of_int (all rC)) 3
                     \<and> \<bar>score rC - of_int (killed rC) / of_int (all rC)\<bar> \<le> 1 / 2000 + 1 / 2 ^ 53)
      \<and> (all rC = 0 \<longrightarrow> kill_df = [] \<and> score rC = 0 \<and> score_full rC = 0)"
  proof (intro impI conjI)
    assume a: "Major_get_mutation_score kill_df mutants_df = Inr rC"
    note i = Major_Inr [OF a] and r = Major_range [OF a]
    {
      assume pos: "0 < all rC"
      with i show "score_full rC = of_int (killed rC) / of_int (all rC)" by simp
      from pos i show s: "score rC = py_round (of_int (killed rC) / of_int (all rC)) 3" by simp
      from pos r have "\<bar>killed rC\<bar> \<le> \<bar>all rC\<bar>" "all rC \<noteq> 0" by simp_all
      from score_close [OF this] s
      show "\<bar>score rC - of_int (killed rC) / of_int (all rC)\<bar> \<le> 1 / 2000 + 1 / 2 ^ 53"
        by simp
    }
    {
      assume z: "all rC = 0"
      with i show "kill_df = []" "score rC = 0" "score_full rC = 0" by simp_all
    }
  qed
  have three: "\<exists>n. py_round x 3 = of_int n / 1000"
    by (auto simp: py_round_thousandth)
  from judy jumble pit major three Major_empty [of mutants_df] show ?thesis
    by blast
qed


theorem parsers_score_rounding_witness:
  "Judy_get_mutation_score ''Foo'' [eighty_entry]
     = Inr \<lparr>killed = 1, live = 79, all = 80, score = 13 / 1000, score_full = 1 / 80\<rparr>
   \<and> Jumble_get_mutation_score transcript
     = Inr \<lparr>killed = 5, live = 3, all = 8, score = 5 / 8, score_full = 5 / 8\<rparr>
   \<and> Pit_get_mutation_score eighty_children
     = Inr \<lparr>killed = 3, live = 77, all = 80, score = 37 / 1000, score_full = 3 / 80\<rparr>
   \<and> Major_get_mutation_score five_statuses five_mutants
     = Inr \<lparr>killed = 3, live = 2, all = 5, score = 3 / 5, score_full = 3 / 5\<rparr>
   \<and> Major_get_mutation_score [] []
     = Inr \<lparr>killed = 0, live = 0, all = 0, score = 0, score_full = 0\<rparr>
   \<and> py_round (of_int 1 / of_int 80) 3 = 13 / 1000
   \<and> py_round (of_int 5 / of_int 8) 3 = 5 / 8
   \<and> py_round (of_int 3 / of_int 80) 3 = 37 / 1000
   \<and> py_round (of_int 3 / of_int 5) 3 = 3 / 5
   \<and> \<bar>13 / 1000 - of_int 1 / of_int 80\<bar> \<le> (1 / 2000 + 1 / 2 ^ 53 :: rat)
   \<and> \<bar>37 / 1000 - of_int 3 / of_int 80\<bar> \<le> (1 / 2000 + 1 / 2 ^ 53 :: rat)"
  using parsers_score_rounding
    [of "''Foo''" "[eighty_entry]"
      "\<lparr>killed = 1, live = 79, all = 80, score = 13 / 1000, score_full = 1 / 80\<rparr>"
      transcript
      "\<lparr>killed = 5, live = 3, all = 8, score = 5 / 8, score_full = 5 / 8\<rparr>"
      eighty_children
      "\<lparr>killed = 3, live = 77, all = 80, score = 37 / 1000, score_full = 3 / 80\<rparr>"
      five_statuses five_mutants
      "\<lparr>killed = 3, live = 2, all = 5, score = 3 / 5, score_full = 3 / 5\<rparr>"]
    parsers_score_rounding
    [of "''Foo''" "[eighty_entry]"
      "\<lparr>killed = 1, live = 79, all = 80, score = 13 / 1000, score_full = 1 / 80\<rparr>"
      transcript
      "\<lparr>killed = 5, live = 3, all = 8, score = 5 / 8, score_full = 5 / 8\<rparr>"
      eighty_children
      "\<lparr>killed = 3, live = 77, all = 80, score = 37 / 1000, score_full = 3 / 80\<rparr>"
      "[]" "[]"
      "\<lparr>killed = 0, live = 0, all = 0, score = 0, score_full = 0\<rparr>"]
    rounding_examples Jumble_example Major_example
  by simp

subsection \<open>Claims on Major\<close>

text \<open>
  Claim C5, as amended. On an empty kill-status table Major returns \<open>killed = 0\<close>,
  \<open>live = all =\<close> the number of described mutants and \<open>score = 0\<close>. On a kill-status
  table with a row, and at least one described mutant, it returns \<open>live =\<close> the number
  of rows of the left join whose status is exactly \<^verbatim>\<open>LIVE\<close>, \<open>all =\<close> the number of rows
  of the join and \<open>killed = all - live\<close>. The join has as many rows as there are
  described mutants when no mutant id occurs twice in the kill-status table.
\<close>

theorem Major_tables:
  "(kill_df = [] \<longrightarrow>
      Major_get_mutation_score kill_df mutants_df =
        Inr \<lparr>killed = 0, live = int (length mutants_df), all = int (length mutants_df),
             score = 0, score_full = 0\<rparr>)
   \<and> (kill_df \<noteq> [] \<and> mutants_df \<noteq> [] \<longrightarrow>
      (\<exists>r. Major_get_mutation_score kill_df mutants_df = Inr r
         \<and> live r = int (length (filter (\<lambda>(m, status). status = Some ''LIVE'') (join mutants_df kill_df)))
         \<and> all r = int (length (join mutants_df kill_df))
         \<and> killed r = all r - live r))
   \<and> (distinct (map fst kill_df) \<longrightarrow> length (join mutants_df kill_df) = length mutants_df)"
  using Major_empty [of mutants_df] Major_nonempty [of kill_df mutants_df]
    join_length_distinct [of kill_df mutants_df]
  by auto

text \<open>
  The claim as stated fails: a mutant id that occurs twice in the kill-status table
  gives two joined rows for one described mutant, so \<open>all\<close> is 2 for one description
  row; and a kill-status table with a row joined to no described mutant divides by zero.
\<close>

theorem Major_tables_counterexample:
  "Major_get_mutation_score [(1, ''LIVE''), (1, ''LIVE'')] [row 1]
     = Inr \<lparr>killed = 0, live = 2, all = 2, score = 0, score_full = 0\<rparr>
   \<and> length [row 1] = 1
   \<and> Major_get_mutation_score [(1, ''LIVE'')] [] = Inl ZeroDivisionError"
  by code_simp

theorem Major_tables_witness:
  "([] :: kill_row list) = []
   \<and> Major_get_mutation_score [] [row 1, row 2, row 3, row 4]
       = Inr \<lparr>killed = 0, live = 4, all = 4, score = 0, score_full = 0\<rparr>
   \<and> five_statuses \<noteq> [] \<and> five_mutants \<noteq> []
   \<and> Major_get_mutation_score five_statuses five_mutants
       = Inr \<lparr>killed = 3, live = 2, all = 5, score = 3 / 5, score_full = 3 / 5\<rparr>
   \<and> int (length (filter (\<lambda>(m, status). status = Some ''LIVE'') (join five_mutants five_statuses))) = 2
   \<and> distinct (map fst five_statuses)
   \<and> length (join five_mutants five_statuses) = length five_mutants"
proof -
  have d: "distinct (map fst five_statuses)"
    by (simp add: five_statuses_def)
  have ne: "five_statuses \<noteq> []" "five_mutants \<noteq> []"
    by (simp_all add: five_statuses_def five_mutants_def)
  from Major_tables [of five_statuses five_mutants] Major_tables [of "[]" "[row 1, row 2, row 3, row 4]"]
    Major_example d ne
  show ?thesis by auto
qed

text \<open>
  Claim C10. With a kill-status table that has a row, a described mutant whose id has
  no row in it is joined to a missing status, which is not \<^verbatim>\<open>LIVE\<close>: alone it gives
  \<open>killed = 1\<close>, \<open>live = 0\<close> and score 1, and added to any other described mutants it
  raises \<open>killed\<close> and \<open>all\<close> by one, leaves \<open>live\<close> as it was and does not lower the
  score.
\<close>

theorem Major_unmatched_killed:
  assumes "kill_df \<noteq> []" and "MutantNo m \<notin> fst ` set kill_df"
  shows "join (before @ m # after) kill_df
           = join before kill_df @ (m, None) # join after kill_df
     \<and> Major_get_mutation_score kill_df [m]
           = Inr \<lparr>killed = 1, live = 0, all = 1, score = 1, score_full = 1\<rparr>
     \<and> (Major_get_mutation_score kill_df (before @ after) = Inr r \<longrightarrow>
         Major_get_mutation_score kill_df (before @ m # after)
           = Inr \<lparr>killed = killed r + 1, live = live r, all = all r + 1,
                  score = py_round (of_int (killed r + 1) / of_int (all r + 1)) 3,
                  score_full = of_int (killed r + 1) / of_int (all r + 1)\<rparr>
         \<and> score_full r \<le> of_int (killed r + 1) / of_int (all r + 1))"
  using assms Major_unmatched_single [OF assms] Major_unmatched_insert [OF assms, of before after r]
  by (simp add: join_append join_Cons join_row_unmatched)

theorem Major_unmatched_killed_witness:
  "[(1, ''LIVE''), (2, ''FAIL'')] \<noteq> ([] :: kill_row list)
   \<and> MutantNo (row 3) \<notin> fst ` set [(1 :: int, ''LIVE''), (2, ''FAIL'')]
   \<and> Major_get_mutation_score [(1, ''LIVE''), (2, ''FAIL'')] ([row 1] @ [row 2])
       = Inr \<lparr>killed = 1, live = 1, all = 2, score = 1 / 2, score_full = 1 / 2\<rparr>
   \<and> Major_get_mutation_score [(1, ''LIVE''), (2, ''FAIL'')] ([row 1] @ row 3 # [row 2])
       = Inr \<lparr>killed = 2, live = 1, all = 3, score = 667 / 1000, score_full = 2 / 3\<rparr>"
proof -
  have h1: "[(1, ''LIVE''), (2, ''FAIL'')] \<noteq> ([] :: kill_row list)" by simp
  have h2: "MutantNo (row 3) \<notin> fst ` set [(1 :: int, ''LIVE''), (2, ''FAIL'')]"
    by (simp add: row_def)
  have h3: "Major_get_mutation_score [(1, ''LIVE''), (2, ''FAIL'')] ([row 1] @ [row 2])
       = Inr \<lparr>killed = 1, live = 1, all = 2, score = 1 / 2, score_full = 1 / 2\<rparr>"
    by code_simp
  have r: "py_round (2 / 3) 3 = 667 / 1000" by code_simp
  from Major_unmatched_killed [OF h1 h2, of "[row 1]" "[row 2]"
      "\<lparr>killed = 1, live = 1, all = 2, score = 1 / 2, score_full = 1 / 2\<rparr>"] h1 h2 h3 r
  show ?thesis by simp
qed


subsection \<open>Claims on Judy and Pit\<close>

text \<open>
  Claim C6, as amended. Judy fails with the assertion error (the
  \<^verbatim>\<open>AmbiguousTargetError\<close> of the specification) when no class entry or more than one
  has the name of the class under mutation. When exactly one entry has it and its
  \<^verbatim>\<open>mutantsCount\<close> is not 0, Judy returns \<open>all = mutantsCount\<close>,
  \<open>killed = mutantsKilledCount\<close> and \<open>live = all - killed\<close>.
\<close>

theorem Judy_target_entry:
  "(filter (\<lambda>adict. name adict = cls) classes = [] \<longrightarrow>
      Judy_get_mutation_score cls classes
        = Inl (AssertionError (cls @ '' not found in Judy output!'')))
   \<and> (1 < length (filter (\<lambda>adict. name adict = cls) classes) \<longrightarrow>
      Judy_get_mutation_score cls classes
        = Inl (AssertionError (cls @ '' appears multiple times in Judy output!'')))
   \<and> (filter (\<lambda>adict. name adict = cls) classes = [d] \<and> mutantsCount d \<noteq> 0 \<longrightarrow>
      Judy_get_mutation_score cls classes
        = Inr \<lparr>killed = mutantsKilledCount d,
               live = mutantsCount d - mutantsKilledCount d,
               all = mutantsCount d,
               score = py_round (of_int (mutantsKilledCount d) / of_int (mutantsCount d)) 3,
               score_full = of_int (mutantsKilledCount d) / of_int (mutantsCount d)\<rparr>)"
  by (auto simp: Judy_get_mutation_score_def Let_def py_truediv_def)

text \<open>
  The claim as stated fails for a single matching entry with \<^verbatim>\<open>mutantsCount\<close> 0:
  the division raises and no record is returned.
\<close>

theorem Judy_target_entry_counterexample:
  "Judy_get_mutation_score ''Foo'' [\<lparr>name = ''Foo'', mutantsCount = 0, mutantsKilledCount = 0\<rparr>]
     = Inl ZeroDivisionError"
  by code_simp

theorem Judy_target_entry_witness:
  "filter (\<lambda>adict. name adict = ''Foo'') [bar_entry] = []
   \<and> Judy_get_mutation_score ''Foo'' [bar_entry]
       = Inl (AssertionError ''Foo not found in Judy output!'')
   \<and> 1 < length (filter (\<lambda>adict. name adict = ''Foo'') [foo_entry, bar_entry, foo_entry])
   \<and> Judy_get_mutation_score ''Foo'' [foo_entry, bar_entry, foo_entry]
       = Inl (AssertionError ''Foo appears multiple times in Judy output!'')
   \<and> filter (\<lambda>adict. name adict = ''Foo'') [bar_entry, foo_entry] = [foo_entry]
   \<and> mutantsCount foo_entry \<noteq> 0
   \<and> Judy_get_mutation_score ''Foo'' [bar_entry, foo_entry]
       = Inr \<lparr>killed = 7, live = 3, all = 10, score = 7 / 10, score_full = 7 / 10\<rparr>"
proof -
  have r: "py_round (7 / 10) 3 = 7 / 10" by code_simp
  show ?thesis
    using Judy_target_entry [of "''Foo''" "[bar_entry]"]
      Judy_target_entry [of "''Foo''" "[foo_entry, bar_entry, foo_entry]"]
      Judy_target_entry [of "''Foo''" "[bar_entry, foo_entry]" foo_entry] r
    by (simp add: foo_entry_def bar_entry_def)
qed

text \<open>
  Claim C7, as amended. For a root with at least one child, every child carrying
  \<^verbatim>\<open>detected\<close> equal to \<^verbatim>\<open>true\<close> or \<^verbatim>\<open>false\<close>, Pit returns \<open>killed =\<close> the number of
  children with \<^verbatim>\<open>true\<close>, \<open>live =\<close> the number with \<^verbatim>\<open>false\<close> and \<open>all = killed + live\<close>;
  four \<^verbatim>\<open>true\<close> and two \<^verbatim>\<open>false\<close> give the score 0.667.
\<close>

theorem Pit_detected_counts:
  assumes "tree \<noteq> []" and "\<forall>child\<in>set tree. child = Some ''true'' \<or> child = Some ''false''"
  shows "Pit_get_mutation_score tree =
     Inr \<lparr>killed = int (length (filter (\<lambda>child. child = Some ''true'') tree)),
          live = int (length (filter (\<lambda>child. child = Some ''false'') tree)),
          all = int (length (filter (\<lambda>child. child = Some ''true'') tree))
                + int (length (filter (\<lambda>child. child = Some ''false'') tree)),
          score = py_round (of_int (int (length (filter (\<lambda>child. child = Some ''true'') tree)))
                   / of_int (int (length (filter (\<lambda>child. child = Some ''true'') tree))
                             + int (length (filter (\<lambda>child. child = Some ''false'') tree)))) 3,
          score_full = of_int (int (length (filter (\<lambda>child. child = Some ''true'') tree)))
                   / of_int (int (length (filter (\<lambda>child. child = Some ''true'') tree))
                             + int (length (filter (\<lambda>child. child = Some ''false'') tree)))\<rparr>"
proof -
  let ?k = "int (length (filter (\<lambda>child. child = Some ''true'') tree))"
  let ?l = "int (length (filter (\<lambda>child. child = Some ''false'') tree))"
  have loop: "Pit_loop tree 0 0 = Inr (?k, ?l)"
    using Pit_loop_counts [OF assms(2), of 0 0] by simp
  from Pit_loop_sum [OF loop] assms(1) have "?k + ?l \<noteq> 0"
    by (cases tree) simp_all
  with loop show ?thesis
    by (simp add: Pit_get_mutation_score_def Let_def py_truediv_def)
qed

text \<open>
  The claim as stated fails for a root without children: the division raises.
\<close>

theorem Pit_detected_counts_counterexample:
  "Pit_get_mutation_score [] = Inl ZeroDivisionError"
  by code_simp

theorem Pit_detected_counts_witness:
  "six_children \<noteq> []
   \<and> set six_children \<subseteq> {Some ''true'', Some ''false''}
   \<and> Pit_get_mutation_score six_children
       = Inr \<lparr>killed = 4, live = 2, all = 6, score = 667 / 1000, score_full = 2 / 3\<rparr>"
proof -
  have h1: "six_children \<noteq> []" by (simp add: six_children_def)
  have h2: "\<forall>child\<in>set six_children. child = Some ''true'' \<or> child = Some ''false''"
    by (simp add: six_children_def)
  have r: "py_round (4 / 6) 3 = 667 / 1000" by code_simp
  from Pit_detected_counts [OF h1 h2] r h1 h2 show ?thesis
    by (simp add: six_children_def)
qed

subsection \<open>Claims on the registry\<close>

text \<open>
  Claim C8. For every name outside \<^verbatim>\<open>judy\<close>, \<^verbatim>\<open>jumble\<close>, \<^verbatim>\<open>major\<close>, \<^verbatim>\<open>pit\<close> the
  lookup fails with the value error (the \<^verbatim>\<open>UnknownToolError\<close> of the specification)
  whose message lists exactly these four names; and for every project path and class
  the expansion to all tools is the list Judy, Jumble, Major, Pit, in this order.
\<close>

theorem registry_lookup:
  "(nm \<notin> {''judy'', ''jumble'', ''major'', ''pit''} \<longrightarrow>
      get_tool nm dir cls
        = Inl (ValueError (''Invalid tool provided: '' @ nm
                 @ ''. Valid tools are ['judy', 'jumble', 'major', 'pit']'')))
   \<and> get_all_tools dir cls
        = Inr [new_tool Judy dir cls, new_tool Jumble dir cls,
               new_tool Major dir cls, new_tool Pit dir cls]"
  by (simp add: get_tool_def get_all_tools_def valid_tools_def tool_name_def repr_list_def)

theorem registry_lookup_witness:
  "''mutmut'' \<notin> {''judy'', ''jumble'', ''major'', ''pit''}
   \<and> get_tool ''mutmut'' ''/tmp/cli'' ''org.Foo''
       = Inl (ValueError
           ''Invalid tool provided: mutmut. Valid tools are ['judy', 'jumble', 'major', 'pit']'')
   \<and> map_sum id (map kind) (get_all_tools ''/tmp/cli'' ''org.Foo'')
       = Inr [Judy, Jumble, Major, Pit]"
  using registry_lookup [of "''mutmut''" "''/tmp/cli''" "''org.Foo''"]
  by (simp add: new_tool_def)


subsection \<open>Claims on read_config\<close>

lemma cut_eq:
  "cut ''='' s =
     (if CHR ''='' \<in> set s
      then Some (takeWhile (\<lambda>c. c \<noteq> CHR ''='') s, tl (dropWhile (\<lambda>c. c \<noteq> CHR ''='') s))
      else None)"
  by (induction s) auto

lemma dropWhile_fixed: "xs = [] \<or> \<not> P (hd xs) \<Longrightarrow> dropWhile P xs = xs"
  by (cases xs) auto

lemma dropWhile_last: "dropWhile P xs \<noteq> [] \<Longrightarrow> last (dropWhile P xs) = last xs"
  by (induction xs) (auto split: if_splits)

lemma strip_ends:
  "strip s = [] \<or> (\<not> is_space (hd (strip s)) \<and> \<not> is_space (last (strip s)))"
proof (cases "strip s = []")
  case True
  then show ?thesis by simp
next
  case False
  let ?a = "dropWhile is_space s"
  let ?b = "dropWhile is_space (rev ?a)"
  have s: "strip s = rev ?b" by (simp add: strip_def)
  with False have b: "?b \<noteq> []" by simp
  then have a: "?a \<noteq> []" by (cases "?a") simp_all
  have "last (strip s) = hd ?b" using s b by (simp add: last_rev)
  moreover have "\<not> is_space (hd ?b)" using b hd_dropWhile [of is_space "rev ?a"] by simp
  moreover have "hd (strip s) = last ?b" using s b by (simp add: hd_rev)
  moreover have "last ?b = last (rev ?a)" using b by (rule dropWhile_last)
  moreover have "last (rev ?a) = hd ?a" using a by (simp add: last_rev)
  moreover have "\<not> is_space (hd ?a)" using a hd_dropWhile [of is_space s] by simp
  ultimately show ?thesis by simp
qed

lemma strip_fixed: "s = [] \<or> (\<not> is_space (hd s) \<and> \<not> is_space (last s)) \<Longrightarrow> strip s = s"
proof -
  assume a: "s = [] \<or> (\<not> is_space (hd s) \<and> \<not> is_space (last s))"
  then have 1: "dropWhile is_space s = s" by (intro dropWhile_fixed) auto
  from a have "rev s = [] \<or> \<not> is_space (hd (rev s))" by (auto simp: hd_rev)
  then have 2: "dropWhile is_space (rev s) = rev s" by (rule dropWhile_fixed)
  show ?thesis by (simp add: strip_def 1 2)
qed

lemma strip_strip: "strip (strip s) = strip s"
  using strip_ends [of s] by (rule strip_fixed)

lemma read_config_line_eq:
  "read_config_line ''='' result line =
     Inr (case stripped_config_entry line of None \<Rightarrow> result | Some (k, v) \<Rightarrow> result(k \<mapsto> v))"
proof -
  have hd: "strip line \<noteq> [] \<Longrightarrow> startswith (strip line) ''#'' \<longleftrightarrow> hd (strip line) = CHR ''#''"
    by (cases "strip line") (auto simp: startswith_def)
  show ?thesis
    using hd
    by (auto simp: read_config_line_def stripped_config_entry_def Let_def split1_def cut_eq strip_strip)
qed

lemma read_config_loop_eq:
  "read_config_loop ''='' result lines =
     Inr (result ++ map_of (rev (List.map_filter stripped_config_entry lines)))"
proof (induction lines arbitrary: result)
  case Nil
  then show ?case by (simp add: map_filter_simps)
next
  case (Cons line lines)
  show ?case
  proof (cases "stripped_config_entry line")
    case None
    then show ?thesis
      by (simp add: read_config_line_eq Cons.IH map_filter_simps)
  next
    case (Some kv)
    obtain k v where kv: "kv = (k, v)" by (cases kv)
    have line: "read_config_line ''='' result line = Inr (result(k \<mapsto> v))"
      unfolding read_config_line_eq Some kv by simp
    have entries: "List.map_filter stripped_config_entry (line # lines)
                   = (k, v) # List.map_filter stripped_config_entry lines"
      using Some kv by (simp add: map_filter_simps)
    have eq: "result(k \<mapsto> v) ++ map_of (rev (List.map_filter stripped_config_entry lines))
          = result ++ map_of (rev ((k, v) # List.map_filter stripped_config_entry lines))"
      by (simp add: map_add_assoc [symmetric])
    have "read_config_loop ''='' result (line # lines)
          = read_config_loop ''='' (result(k \<mapsto> v)) lines"
      by (simp only: read_config_loop.simps line sum.case)
    also have "\<dots> = Inr (result(k \<mapsto> v) ++ map_of (rev (List.map_filter stripped_config_entry lines)))"
      by (rule Cons.IH)
    finally show ?thesis
      unfolding entries eq .
  qed
qed

text \<open>
  Claim C9, as amended. For every text of a config file, \<^verbatim>\<open>read_config\<close> with the
  separator \<^verbatim>\<open>=\<close> raises nothing and returns exactly the map of the entries of its
  lines, each line taken without the white space at its ends: lines then empty and
  lines then starting with \<^verbatim>\<open>#\<close> are skipped, lines without \<^verbatim>\<open>=\<close> are skipped, and
  every other line is cut at its first \<^verbatim>\<open>=\<close> into a key and a value, both taken
  without the white space at their ends.
\<close>

theorem read_config_key_value:
  "read_config text ''='' = Inr (stripped_read_config text)"
  by (simp add: read_config_def stripped_read_config_def read_config_loop_eq)

text \<open>
  The claim as stated fails where white space stands at the end of a line, a key or
  a value: of \<^verbatim>\<open>a = b\<close> the text before \<^verbatim>\<open>=\<close> is \<^verbatim>\<open>a\<close> with a blank, and the code
  stores the key \<^verbatim>\<open>a\<close>; the line \<^verbatim>\<open>#a=b\<close> behind a blank does not start with
  \<^verbatim>\<open>#\<close>, and the code skips it.
\<close>

theorem read_config_key_value_counterexample:
  "lookup (read_config ''a = b'' ''='') ''a'' = Some ''b''
   \<and> lookup (read_config ''a = b'' ''='') ''a '' = None
   \<and> spec_read_config ''a = b'' ''a'' = None
   \<and> spec_read_config ''a = b'' ''a '' = Some '' b''
   \<and> lookup (read_config '' #a=b'' ''='') '' #a'' = None
   \<and> spec_read_config '' #a=b'' '' #a'' = Some ''b''"
  by code_simp

lemma config_example:
  "map (stripped_read_config config_text)
     [''d4j.project.id'', ''d4j.classes.modified'', ''# d4j.bug.id'', ''no separator here'',
      ''# defects4j'']
   = [Some ''Lang'', Some ''org.Foo=Bar'', None, None, None]"
  by code_simp

theorem read_config_key_value_witness:
  "map (case read_config config_text ''='' of Inr result \<Rightarrow> result)
     [''d4j.project.id'', ''d4j.classes.modified'', ''# d4j.bug.id'', ''no separator here'',
      ''# defects4j'']
   = [Some ''Lang'', Some ''org.Foo=Bar'', None, None, None]"
  using read_config_key_value [of config_text] config_example by simp

subsection \<open>Claims on Jumble\<close>





































text \<open>
  Claim C4. For a transcript without the start marker the handler is to fail with the
  runtime error (the \<^verbatim>\<open>ExecutionFailedError\<close> of the specification) that carries the
  reason of the \<^verbatim>\<open>Score: <pct>% (<reason>\<close> line, for any percentage. The code reads
  exactly one digit before \<^verbatim>\<open>%\<close>: for \<^verbatim>\<open>Score: 0% (engine crashed\<close> it raises that
  error with the reason, but for a percentage of two or three digits the error
  pattern is not found and the handler itself raises \<^verbatim>\<open>AttributeError\<close>.
\<close>

theorem Jumble_handler_crash:
  "Jumble_get_mutation_score ''Score: 10% (engine crashed'' = Inl AttributeError
   \<and> Jumble_get_mutation_score ''Score: 100% (INTERFACE)'' = Inl AttributeError
   \<and> Jumble_get_mutation_score ''Score: 0% (engine crashed'' =
       Inl (RuntimeError (''Cannot find start pattern. Jumble message: engine crashed'' @ [newline]
              @ ''Try running the verbose script to get more detailed information: ''
              @ ''jumble_verbose.sh''))"
  by code_simp

end
